theory Spec2Isabelle
  imports Main
begin

section \<open>JavaScript values used by the program\<close>

text \<open>
  A thrown value is read by the program only through its \<open>message\<close> property, which may
  be absent (\<open>catch (error: any)\<close>). \<open>new Error(m)\<close> is \<open>Error (Some m)\<close>.
\<close>

datatype js_error = Error (message: "string option")

text \<open>
  \<open>a || b\<close> where \<open>a\<close> is a string or \<open>undefined\<close>: the empty string and
  \<open>undefined\<close> are falsy, every other string is truthy.
\<close>

fun js_or :: "string option \<Rightarrow> string \<Rightarrow> string" where
  "js_or None d = d"
| "js_or (Some s) d = (if s = [] then d else s)"

section \<open>services/geminiService.ts\<close>

definition AI_MODEL :: string where
  "AI_MODEL = ''gemini-2.5-flash-image''"

text \<open>\<open>process.env\<close>: the only variable read is \<open>API_KEY\<close>, which may be unset.\<close>

record process_env =
  API_KEY :: "string option"

text \<open>
  The argument of \<open>ai.models.generateContent\<close> as the object literal of lines 17-37 builds
  it: \<open>contents\<close> holds the list \<open>contents.parts\<close>, \<open>aspectRatio\<close> is
  \<open>config.imageConfig.aspectRatio\<close>. A part of the request is either
  \<open>{inlineData: {data, mimeType}}\<close> or \<open>{text}\<close>. The payload is a \<open>string option\<close>:
  TypeScript's types are erased at run time, and the caller in App passes
  \<open>base64.split(',')[1]\<close>, which is \<open>undefined\<close> (\<open>None\<close>) when the preview has no comma.
\<close>

datatype RequestPart = InlineDataPart "string option" string | TextPart string

record GenerateContentParameters =
  model :: string
  contents :: "RequestPart list"
  aspectRatio :: string

text \<open>
  Modelled from the spec: the response type of the SDK (\<open>@google/genai\<close>), whose
  declarations are not part of the repository. The specification describes the response as a
  candidate list, each candidate with content parts, where an inline image part holds
  base64 text; the code reads \<open>response.candidates\<close> (which may be absent),
  \<open>candidates[0].content.parts\<close>, \<open>part.inlineData\<close> (which may be absent) and
  \<open>part.inlineData.data\<close>. \<open>partText\<close> is the part's \<open>text\<close> property, which the code
  never reads.
\<close>

record Blob =
  data :: string

record Part =
  inlineData :: "Blob option"
  partText :: "string option"

record Content =
  parts :: "Part list"

record Candidate =
  content :: Content

record GenerateContentResponse =
  candidates :: "Candidate list option"

text \<open>
  What the function does to the outside world, in order: constructing the SDK client with a
  key, sending a request through it, and logging to the console.
\<close>

datatype effect =
    NewClient string
  | GenerateContent GenerateContentParameters
  | ConsoleError js_error

fun requests_sent :: "effect list \<Rightarrow> GenerateContentParameters list" where
  "requests_sent [] = []"
| "requests_sent (NewClient k # es) = requests_sent es"
| "requests_sent (GenerateContent r # es) = r # requests_sent es"
| "requests_sent (ConsoleError e # es) = requests_sent es"

text \<open>The object literal passed to \<open>generateContent\<close> (lines 17-37).\<close>

definition request :: "string option \<Rightarrow> string \<Rightarrow> string \<Rightarrow> GenerateContentParameters" where
  "request imageBase64 mimeType prompt =
     \<lparr> model = AI_MODEL,
       contents =
         [ InlineDataPart imageBase64 mimeType,
           TextPart (js_or (Some prompt)
             ''Transform this image to 9:16 portrait aspect ratio, maintaining the subject and style.'') ],
       aspectRatio = ''9:16'' \<rparr>"

text \<open>
  The loop of lines 46-57: \<open>imageUri\<close> starts as \<open>null\<close>; the first part with
  \<open>inlineData\<close> sets it and breaks.
\<close>

fun scan_parts :: "Part list \<Rightarrow> string option" where
  "scan_parts [] = None"
| "scan_parts (part # rest) =
     (case inlineData part of
        Some blob \<Rightarrow> Some (''data:image/png;base64,'' @ data blob)
      | None \<Rightarrow> scan_parts rest)"

text \<open>
  Lines 40-63, the part of the \<open>try\<close> block after the awaited call: its argument is
  how the call settled (\<open>Inl\<close> a thrown value, \<open>Inr\<close> the response).
  \<open>!imageUri\<close> holds for \<open>null\<close> and for the empty string.
\<close>

definition try_block :: "js_error + GenerateContentResponse \<Rightarrow> js_error + string" where
  "try_block settled =
     (case settled of
        Inl thrown \<Rightarrow> Inl thrown
      | Inr response \<Rightarrow>
          (case candidates response of
             None \<Rightarrow> Inl (Error (Some ''No candidates returned from Gemini.''))
           | Some [] \<Rightarrow> Inl (Error (Some ''No candidates returned from Gemini.''))
           | Some (candidate # _) \<Rightarrow>
               (case scan_parts (parts (content candidate)) of
                  None \<Rightarrow> Inl (Error (Some ''No image generated in the response.''))
                | Some imageUri \<Rightarrow>
                    if imageUri = [] then Inl (Error (Some ''No image generated in the response.''))
                    else Inr imageUri)))"

text \<open>
  \<open>generateVerticalImage\<close>. The environment and the SDK are parameters: \<open>GoogleGenAI\<close>
  maps the key to the behaviour of \<open>ai.models.generateContent\<close> on a request. The result
  is how the promise settles (\<open>Inl\<close> rejected, \<open>Inr\<close> resolved) and the effects performed.
\<close>

definition generateVerticalImage ::
  "process_env \<Rightarrow> (string \<Rightarrow> GenerateContentParameters \<Rightarrow> js_error + GenerateContentResponse) \<Rightarrow>
   string option \<Rightarrow> string \<Rightarrow> string \<Rightarrow> (js_error + string) \<times> effect list" where
  "generateVerticalImage env GoogleGenAI imageBase64 mimeType prompt =
     (case API_KEY env of
        None \<Rightarrow>
          (Inl (Error (Some ''API Key is missing. Please check your environment configuration.'')), [])
      | Some key \<Rightarrow>
          if key = [] then
            (Inl (Error (Some ''API Key is missing. Please check your environment configuration.'')), [])
          else
            (let req = request imageBase64 mimeType prompt
             in case try_block (GoogleGenAI key req) of
                  Inr imageUri \<Rightarrow> (Inr imageUri, [NewClient key, GenerateContent req])
                | Inl error \<Rightarrow>
                    (Inl (Error (Some (js_or (message error) ''Failed to generate image.''))),
                     [NewClient key, GenerateContent req, ConsoleError error])))"

section \<open>types.ts\<close>

record ProcessingState =
  isLoading :: bool
  error :: "string option"
  progress :: string

text \<open>
  A DOM \<open>File\<close>; the program reads only its \<open>type\<close>. The field \<open>file\<close> is written
  \<open>file'\<close>. The field \<open>base64\<close> of an
  \<open>ImageUpload\<close> is declared \<open>string\<close>, but it is assigned \<open>base64.split(',')[1]\<close>,
  which is \<open>undefined\<close> when the split has a single piece: \<open>None\<close> here.
\<close>

record File =
  name :: string
  type :: string

record ImageUpload =
  file' :: File
  previewUrl :: string
  base64 :: "string option"
  mimeType :: string

section \<open>Strings: \<open>match\<close> and \<open>split\<close>\<close>

text \<open>
  Strings are lists of characters. In a regular expression \<open>.\<close> matches every character
  but a line terminator; of these, line feed and carriage return exist as single
  characters here.
\<close>

definition LineTerminator :: "char \<Rightarrow> bool" where
  "LineTerminator c \<longleftrightarrow> c = CHR 0x0A \<or> c = CHR 0x0D"

text \<open>
  \<open>(.*);base64,\<close> matched at the start of a string, giving the text captured by the
  group. The star is greedy: at each character it first tries to take the character (when
  \<open>.\<close> accepts it) and match the rest, and only when that fails does it try the literal
  \<open>;base64,\<close> at the current position.
\<close>

fun match_group :: "string \<Rightarrow> string option" where
  "match_group [] = None"
| "match_group (c # cs) =
     (case (if LineTerminator c then None else match_group cs) of
        Some m \<Rightarrow> Some (c # m)
      | None \<Rightarrow> if take 8 (c # cs) = '';base64,'' then Some [] else None)"

text \<open>
  \<open>s.match(/^data:(.*);base64,/)\<close>: \<open>None\<close> is \<open>null\<close> (no match), \<open>Some m\<close> is a
  match whose first group \<open>match[1]\<close> is \<open>m\<close>.
\<close>

definition match_dataUrl :: "string \<Rightarrow> string option" where
  "match_dataUrl s = (if take 5 s = ''data:'' then match_group (drop 5 s) else None)"

text \<open>
  \<open>s.split(c)\<close> for a separator of one character: the pieces between the separators, at
  least one piece.
\<close>

fun split :: "char \<Rightarrow> string \<Rightarrow> string list" where
  "split sep [] = [[]]"
| "split sep (c # cs) =
     (if c = sep then [] # split sep cs
      else (case split sep cs of
              [] \<Rightarrow> [[c]]
            | piece # pieces \<Rightarrow> (c # piece) # pieces))"

text \<open>\<open>xs[i]\<close> on an array: \<open>undefined\<close> (\<open>None\<close>) out of range.\<close>

fun index :: "'a list \<Rightarrow> nat \<Rightarrow> 'a option" where
  "index [] i = None"
| "index (x # xs) 0 = Some x"
| "index (x # xs) (Suc i) = index xs i"

section \<open>App: the state and its handlers\<close>

text \<open>The four \<open>useState\<close> cells of \<open>App\<close> (lines 28-36).\<close>

record AppState =
  sourceImage :: "ImageUpload option"
  generatedImage :: "string option"
  prompt :: string
  processing :: ProcessingState

definition initialState :: AppState where
  "initialState =
     \<lparr> sourceImage = None,
       generatedImage = None,
       prompt = ''Convert this landscape image to a 9:16 portrait composition, expanding the background naturally.'',
       processing = \<lparr> isLoading = False, error = None, progress = [] \<rparr> \<rparr>"

text \<open>\<open>handleImageSelected\<close> (lines 38-51).\<close>

definition handleImageSelected :: "File \<Rightarrow> string \<Rightarrow> AppState \<Rightarrow> AppState" where
  "handleImageSelected f dataUrl s =
     (let mime = (case match_dataUrl dataUrl of Some m \<Rightarrow> m | None \<Rightarrow> type f)
      in s \<lparr> sourceImage :=
               Some \<lparr> file' = f,
                      previewUrl = dataUrl,
                      base64 = index (split CHR '','' dataUrl) 1,
                      mimeType = mime \<rparr>,
             generatedImage := None,
             processing := \<lparr> isLoading = False, error = None, progress = [] \<rparr> \<rparr>)"

text \<open>\<open>handleClear\<close> (lines 53-57).\<close>

definition handleClear :: "AppState \<Rightarrow> AppState" where
  "handleClear s =
     s \<lparr> sourceImage := None,
         generatedImage := None,
         processing := \<lparr> isLoading = False, error = None, progress = [] \<rparr> \<rparr>"

text \<open>
  \<open>handleGenerate\<close> (lines 59-81) is asynchronous: it runs up to the first \<open>await\<close>
  (line 62), resumes when the 500 ms timer fires (line 67, then the call of the client),
  and resumes again when the client's promise settles (lines 75-79: the assignment or the
  \<open>catch\<close>, then the \<open>finally\<close>). Each stretch is one function on the state.
\<close>

definition handleGenerate_begin :: "AppState \<Rightarrow> AppState" where
  "handleGenerate_begin s =
     s \<lparr> processing := \<lparr> isLoading = True, error = None, progress = ''Analyzing image...'' \<rparr> \<rparr>"

definition handleGenerate_afterDelay :: "AppState \<Rightarrow> AppState" where
  "handleGenerate_afterDelay s =
     s \<lparr> processing := (processing s) \<lparr> progress := ''Generating new aspect ratio...'' \<rparr> \<rparr>"

definition handleGenerate_settled :: "js_error + string \<Rightarrow> AppState \<Rightarrow> AppState" where
  "handleGenerate_settled settled s =
     (let s' = (case settled of
                  Inr resultUrl \<Rightarrow> s \<lparr> generatedImage := Some resultUrl \<rparr>
                | Inl err \<Rightarrow>
                    s \<lparr> processing :=
                          (processing s) \<lparr> error := Some (js_or (message err) ''Something went wrong'') \<rparr> \<rparr>)
      in s' \<lparr> processing := (processing s') \<lparr> isLoading := False, progress := [] \<rparr> \<rparr>)"

text \<open>
  One run of \<open>handleGenerate\<close> from start to end with no other event in between: the
  final state and the effects of the client.
\<close>

definition handleGenerate ::
  "process_env \<Rightarrow> (string \<Rightarrow> GenerateContentParameters \<Rightarrow> js_error + GenerateContentResponse) \<Rightarrow>
   AppState \<Rightarrow> AppState \<times> effect list" where
  "handleGenerate env GoogleGenAI s =
     (case sourceImage s of
        None \<Rightarrow> (s, [])
      | Some img \<Rightarrow>
          (let s1 = handleGenerate_begin s;
               s2 = handleGenerate_afterDelay s1;
               (settled, effects) =
                 generateVerticalImage env GoogleGenAI (base64 img) (mimeType img) (prompt s)
           in (handleGenerate_settled settled s2, effects)))"

section \<open>App: the session as events\<close>

text \<open>
  Between the stretches of \<open>handleGenerate\<close> the page stays live, so a session is the
  state together with the runs of \<open>handleGenerate\<close> that wait: those whose 500 ms timer
  has not fired (\<open>timers\<close>, oldest first) and those whose call of the client has not
  settled (\<open>inFlight\<close>). A run carries the arguments it captured when it was started.
\<close>

type_synonym client_args = "string option \<times> string \<times> string"

record Session =
  ui :: AppState
  timers :: "client_args list"
  inFlight :: "client_args list"

definition initialSession :: Session where
  "initialSession = \<lparr> ui = initialState, timers = [], inFlight = [] \<rparr>"

text \<open>
  The events: a file chosen or dropped in the \<open>Uploader\<close> and read, the buttons of the
  page, an edit of the prompt, the oldest timer firing, and the call in flight at a given
  position settling.
\<close>

datatype Event =
    SelectFile File string
  | ClickTrash
  | ClickChangeImage
  | ClickGenerate
  | ClickRegenerate
  | EditPrompt string
  | DelayElapsed
  | ClientSettles nat "js_error + string"

text \<open>A call of \<open>handleGenerate\<close> up to its first \<open>await\<close> (lines 60-66).\<close>

definition callHandleGenerate :: "Session \<Rightarrow> Session" where
  "callHandleGenerate a =
     (case sourceImage (ui a) of
        None \<Rightarrow> a
      | Some img \<Rightarrow>
          a \<lparr> ui := handleGenerate_begin (ui a),
              timers := timers a @ [(base64 img, mimeType img, prompt (ui a))] \<rparr>)"

text \<open>
  One event. A control reacts only when it is rendered and not disabled, as the markup
  says:
  \<^item> the \<open>Uploader\<close> is rendered when there is no source image (line 144), is disabled
    while loading (line 145), and passes on only files whose type starts with
    \<open>image/\<close> (Uploader, line 20);
  \<^item> the trash button is rendered when there is a source image and is disabled while
    loading (lines 133-141);
  \<^item> the button "Change Image" is rendered when there is a source image and has no
    \<open>disabled\<close> attribute (lines 154-159);
  \<^item> the generate button is disabled when there is no source image or while loading
    (line 188);
  \<^item> the regenerate button is rendered when there is a generated image and is disabled
    while loading (lines 236-245);
  \<^item> the prompt field is disabled while loading (line 182).
\<close>

fun step :: "Event \<Rightarrow> Session \<Rightarrow> Session" where
  "step (SelectFile f dataUrl) a =
     (if sourceImage (ui a) = None \<and> \<not> isLoading (processing (ui a)) \<and> take 6 (type f) = ''image/''
      then a \<lparr> ui := handleImageSelected f dataUrl (ui a) \<rparr> else a)"
| "step ClickTrash a =
     (if sourceImage (ui a) \<noteq> None \<and> \<not> isLoading (processing (ui a))
      then a \<lparr> ui := handleClear (ui a) \<rparr> else a)"
| "step ClickChangeImage a =
     (if sourceImage (ui a) \<noteq> None then a \<lparr> ui := handleClear (ui a) \<rparr> else a)"
| "step ClickGenerate a =
     (if \<not> (sourceImage (ui a) = None \<or> isLoading (processing (ui a)))
      then callHandleGenerate a else a)"
| "step ClickRegenerate a =
     (if generatedImage (ui a) \<noteq> None \<and> \<not> isLoading (processing (ui a))
      then callHandleGenerate a else a)"
| "step (EditPrompt t) a =
     (if \<not> isLoading (processing (ui a)) then a \<lparr> ui := (ui a) \<lparr> prompt := t \<rparr> \<rparr> else a)"
| "step DelayElapsed a =
     (case timers a of
        [] \<Rightarrow> a
      | args # rest \<Rightarrow>
          a \<lparr> ui := handleGenerate_afterDelay (ui a),
              timers := rest,
              inFlight := inFlight a @ [args] \<rparr>)"
| "step (ClientSettles n settled) a =
     (if n < length (inFlight a)
      then a \<lparr> ui := handleGenerate_settled settled (ui a),
               inFlight := take n (inFlight a) @ drop (Suc n) (inFlight a) \<rparr>
      else a)"

fun run :: "Event list \<Rightarrow> Session \<Rightarrow> Session" where
  "run [] a = a"
| "run (e # es) a = run es (step e a)"

section \<open>Concrete scenarios\<close>

text \<open>Environments, behaviours of the SDK, responses and uploads used as examples below.\<close>

definition env_with_key :: process_env where
  "env_with_key = \<lparr> API_KEY = Some ''secret'' \<rparr>"

definition env_without_key :: process_env where
  "env_without_key = \<lparr> API_KEY = None \<rparr>"

definition sdk_resolving ::
  "GenerateContentResponse \<Rightarrow> string \<Rightarrow> GenerateContentParameters \<Rightarrow> js_error + GenerateContentResponse" where
  "sdk_resolving response key req = Inr response"

definition sdk_rejecting ::
  "js_error \<Rightarrow> string \<Rightarrow> GenerateContentParameters \<Rightarrow> js_error + GenerateContentResponse" where
  "sdk_rejecting thrown key req = Inl thrown"

definition textPart :: "string \<Rightarrow> Part" where
  "textPart t = \<lparr> inlineData = None, partText = Some t \<rparr>"

definition imagePart :: "string \<Rightarrow> Part" where
  "imagePart d = \<lparr> inlineData = Some \<lparr> data = d \<rparr>, partText = None \<rparr>"

definition candidateOf :: "Part list \<Rightarrow> Candidate" where
  "candidateOf ps = \<lparr> content = \<lparr> parts = ps \<rparr> \<rparr>"

definition no_candidates :: GenerateContentResponse where
  "no_candidates = \<lparr> candidates = Some [] \<rparr>"

definition text_only :: GenerateContentResponse where
  "text_only = \<lparr> candidates = Some [candidateOf [textPart ''I cannot do that.'']] \<rparr>"

definition two_images :: GenerateContentResponse where
  "two_images =
     \<lparr> candidates =
         Some [candidateOf [textPart ''Here it is.'', imagePart ''QkxVRQ=='', imagePart ''R1JFRU4='']] \<rparr>"

definition image_in_second_candidate :: GenerateContentResponse where
  "image_in_second_candidate =
     \<lparr> candidates =
         Some [candidateOf [textPart ''I cannot do that.''], candidateOf [imagePart ''QkxVRQ=='']] \<rparr>"

definition image_then_text :: GenerateContentResponse where
  "image_then_text =
     \<lparr> candidates =
         Some [candidateOf [imagePart ''QkxVRQ==''], candidateOf [textPart ''I cannot do that.'']] \<rparr>"

definition picture :: File where
  "picture = \<lparr> name = ''red.png'', type = ''image/png'' \<rparr>"

definition red_pixels :: string where
  "red_pixels = ''data:image/png;base64,UkVE''"

definition after_success :: AppState where
  "after_success =
     (handleImageSelected picture red_pixels initialState)
       \<lparr> generatedImage := Some ''data:image/png;base64,QkxVRQ=='' \<rparr>"

definition change_image_while_loading :: "Event list" where
  "change_image_while_loading =
     [SelectFile picture red_pixels, ClickGenerate, DelayElapsed,
      ClickChangeImage, SelectFile picture red_pixels]"

section \<open>Properties of the Generation Client\<close>

lemma scan_parts_first:
  "\<forall>q \<in> set before. inlineData q = None \<Longrightarrow> inlineData part = Some blob \<Longrightarrow>
   scan_parts (before @ part # after) = Some (''data:image/png;base64,'' @ data blob)"
  by (induction before) simp_all

lemma scan_parts_none:
  "\<forall>q \<in> set ps. inlineData q = None \<Longrightarrow> scan_parts ps = None"
  by (induction ps) simp_all

lemma scan_parts_nonempty: "scan_parts ps = Some uri \<Longrightarrow> uri \<noteq> []"
  by (induction ps) (auto split: option.splits)

lemma try_block_thrown: "try_block (Inl thrown) = Inl thrown"
  by (simp add: try_block_def)

text \<open>
  C1, as stated, asks only that some candidate of the response carries an inline image.
  The code reads \<open>candidates[0]\<close> alone: with a key configured and a response whose first
  candidate holds only text and whose second candidate holds an image, the call is
  rejected with "No image generated in the response.".
\<close>

theorem generateVerticalImage_second_candidate_unread:
  "API_KEY env_with_key = Some ''secret''
   \<and> candidates image_in_second_candidate
     = Some [candidateOf [textPart ''I cannot do that.''], candidateOf [imagePart ''QkxVRQ=='']]
   \<and> map inlineData (parts (content (candidateOf [imagePart ''QkxVRQ=='']))) = [Some \<lparr> data = ''QkxVRQ=='' \<rparr>]
   \<and> fst (generateVerticalImage env_with_key (sdk_resolving image_in_second_candidate)
          (Some ''UkVE'') ''image/png'' [])
     = Inl (Error (Some ''No image generated in the response.''))"
  by (simp add: generateVerticalImage_def env_with_key_def sdk_resolving_def
      image_in_second_candidate_def try_block_def candidateOf_def textPart_def imagePart_def)

text \<open>
  C1 (amended): for every call to \<open>generateVerticalImage\<close> with a configured credential
  whose remote response has a first candidate whose content parts include at least one
  part with inline image data, the call returns \<open>data:image/png;base64,\<close> followed by the
  payload of the first such part in part order; the parts after it, and the candidates
  after the first, are ignored.
\<close>

theorem generateVerticalImage_first_inline_image:
  assumes "API_KEY env = Some key" and "key \<noteq> []"
    and "GoogleGenAI key (request payload mt p) = Inr response"
    and "candidates response = Some (candidate # others)"
    and "parts (content candidate) = before @ part # after"
    and "\<forall>q \<in> set before. inlineData q = None"
    and "inlineData part = Some blob"
  shows "fst (generateVerticalImage env GoogleGenAI payload mt p)
         = Inr (''data:image/png;base64,'' @ data blob)"
proof -
  have "scan_parts (parts (content candidate)) = Some (''data:image/png;base64,'' @ data blob)"
    using assms(5-7) by (simp add: scan_parts_first)
  then have "try_block (GoogleGenAI key (request payload mt p))
             = Inr (''data:image/png;base64,'' @ data blob)"
    using assms(3,4) by (simp add: try_block_def)
  then show ?thesis
    using assms(1,2) by (simp add: generateVerticalImage_def Let_def)
qed

text \<open>
  The theorem at the response \<open>two_images\<close>: one candidate with a text part, then two
  image parts. The payload of the first image part comes back.
\<close>

theorem generateVerticalImage_first_inline_image_witness:
  "fst (generateVerticalImage env_with_key (sdk_resolving two_images) (Some ''UkVE'') ''image/png'' [])
   = Inr ''data:image/png;base64,QkxVRQ==''"
proof -
  have k: "API_KEY env_with_key = Some ''secret''" and ne: "''secret'' \<noteq> []"
    by (simp_all add: env_with_key_def)
  have r: "sdk_resolving two_images ''secret'' (request (Some ''UkVE'') ''image/png'' []) = Inr two_images"
    by (simp add: sdk_resolving_def)
  have c: "candidates two_images
           = Some (candidateOf [textPart ''Here it is.'', imagePart ''QkxVRQ=='', imagePart ''R1JFRU4=''] # [])"
    by (simp add: two_images_def)
  have ps: "parts (content (candidateOf [textPart ''Here it is.'', imagePart ''QkxVRQ=='', imagePart ''R1JFRU4='']))
            = [textPart ''Here it is.''] @ imagePart ''QkxVRQ=='' # [imagePart ''R1JFRU4='']"
    by (simp add: candidateOf_def)
  have b: "\<forall>q \<in> set [textPart ''Here it is.'']. inlineData q = None"
    by (simp add: textPart_def)
  have i: "inlineData (imagePart ''QkxVRQ=='') = Some \<lparr> data = ''QkxVRQ=='' \<rparr>"
    by (simp add: imagePart_def)
  show ?thesis
    using generateVerticalImage_first_inline_image
      [where GoogleGenAI = "sdk_resolving two_images", OF k ne r c ps b i]
    by simp
qed

text \<open>
  C2: every request that a call to \<open>generateVerticalImage\<close> sends has exactly two parts,
  the inline-data part with the given payload and MIME type and a text part that is the
  given prompt when it is non-empty and the default instruction otherwise; with a
  credential configured the call sends exactly that one request.
\<close>

theorem generateVerticalImage_request_parts:
  "(\<forall>r \<in> set (requests_sent (snd (generateVerticalImage env GoogleGenAI payload mt p))).
      contents r =
        [InlineDataPart payload mt,
         TextPart (if p = []
                   then ''Transform this image to 9:16 portrait aspect ratio, maintaining the subject and style.''
                   else p)])
   \<and> (\<forall>key. API_KEY env = Some key \<and> key \<noteq> [] \<longrightarrow>
        requests_sent (snd (generateVerticalImage env GoogleGenAI payload mt p))
        = [request payload mt p])"
  by (auto simp add: generateVerticalImage_def Let_def request_def split: option.splits sum.splits)

text \<open>The theorem at an empty prompt: the one request sent carries the default text.\<close>

theorem generateVerticalImage_request_parts_witness:
  "map contents (requests_sent (snd (generateVerticalImage env_with_key (sdk_resolving two_images)
      (Some ''UkVE'') ''image/png'' [])))
   = [[InlineDataPart (Some ''UkVE'') ''image/png'',
       TextPart ''Transform this image to 9:16 portrait aspect ratio, maintaining the subject and style.'']]"
proof -
  have k: "API_KEY env_with_key = Some ''secret'' \<and> ''secret'' \<noteq> []"
    by (simp add: env_with_key_def)
  show ?thesis
    using k generateVerticalImage_request_parts
      [of env_with_key "sdk_resolving two_images" "Some ''UkVE''" "''image/png''" "[]"]
    by (simp add: request_def)
qed

text \<open>
  C3, as stated, asks for the failure "No image generated in the response." whenever a
  candidate is present none of whose content parts has inline image data. The code reads
  \<open>candidates[0]\<close> alone: with a key configured and a response whose first candidate
  holds an image and whose second candidate holds only text, a candidate without inline
  image data is present and the call resolves with the image of the first candidate.
\<close>

theorem generateVerticalImage_text_only_candidate_unread:
  "API_KEY env_with_key = Some ''secret''
   \<and> candidates image_then_text
     = Some [candidateOf [imagePart ''QkxVRQ==''], candidateOf [textPart ''I cannot do that.'']]
   \<and> map inlineData (parts (content (candidateOf [textPart ''I cannot do that.'']))) = [None]
   \<and> fst (generateVerticalImage env_with_key (sdk_resolving image_then_text)
          (Some ''UkVE'') ''image/png'' [])
     = Inr ''data:image/png;base64,QkxVRQ==''"
  by (simp add: generateVerticalImage_def env_with_key_def sdk_resolving_def
      image_then_text_def try_block_def candidateOf_def textPart_def imagePart_def)

text \<open>
  C3 (amended): with a credential configured and a response received, an absent or empty
  candidate list makes the call fail with the message "No candidates returned from
  Gemini." (which contains "No candidates"); and when the list is not empty and none of
  the content parts of its first candidate has inline image data, the call fails with the
  message "No image generated in the response.". Candidates after the first are not
  examined.
\<close>

theorem generateVerticalImage_empty_response_errors:
  assumes "API_KEY env = Some key" and "key \<noteq> []"
    and "GoogleGenAI key (request payload mt p) = Inr response"
  shows "(candidates response = None \<or> candidates response = Some [] \<longrightarrow>
            fst (generateVerticalImage env GoogleGenAI payload mt p)
            = Inl (Error (Some (''No candidates'' @ '' returned from Gemini.''))))
       \<and> (\<forall>candidate others.
            candidates response = Some (candidate # others) \<and>
            (\<forall>q \<in> set (parts (content candidate)). inlineData q = None) \<longrightarrow>
            fst (generateVerticalImage env GoogleGenAI payload mt p)
            = Inl (Error (Some ''No image generated in the response.'')))"
  using assms
  by (auto simp add: generateVerticalImage_def Let_def try_block_def scan_parts_none)

text \<open>
  The theorem at the response with \<open>candidates: []\<close> and at the response whose only
  candidate holds text.
\<close>

theorem generateVerticalImage_empty_response_errors_witness:
  "fst (generateVerticalImage env_with_key (sdk_resolving no_candidates) (Some ''UkVE'') ''image/png'' [])
   = Inl (Error (Some ''No candidates returned from Gemini.''))
   \<and> fst (generateVerticalImage env_with_key (sdk_resolving text_only) (Some ''UkVE'') ''image/png'' [])
   = Inl (Error (Some ''No image generated in the response.''))"
proof -
  have k: "API_KEY env_with_key = Some ''secret''" and ne: "''secret'' \<noteq> []"
    by (simp_all add: env_with_key_def)
  have r0: "sdk_resolving no_candidates ''secret'' (request (Some ''UkVE'') ''image/png'' []) = Inr no_candidates"
    and r1: "sdk_resolving text_only ''secret'' (request (Some ''UkVE'') ''image/png'' []) = Inr text_only"
    by (simp_all add: sdk_resolving_def)
  have c0: "candidates no_candidates = Some []"
    by (simp add: no_candidates_def)
  have c1: "candidates text_only = Some (candidateOf [textPart ''I cannot do that.''] # [])
            \<and> (\<forall>q \<in> set (parts (content (candidateOf [textPart ''I cannot do that.'']))). inlineData q = None)"
    by (simp add: text_only_def candidateOf_def textPart_def)
  show ?thesis
    using c0 c1
      generateVerticalImage_empty_response_errors
        [where GoogleGenAI = "sdk_resolving no_candidates", OF k ne r0]
      generateVerticalImage_empty_response_errors
        [where GoogleGenAI = "sdk_resolving text_only", OF k ne r1]
    by (simp del: set_simps)
qed

text \<open>
  C4: when no credential is configured (\<open>API_KEY\<close> unset or empty), the call is rejected
  with the configuration error and has performed no effect at all: no client was
  constructed and no request was sent.
\<close>

theorem generateVerticalImage_missing_key:
  assumes "API_KEY env = None \<or> API_KEY env = Some []"
  shows "generateVerticalImage env GoogleGenAI payload mt p
         = (Inl (Error (Some ''API Key is missing. Please check your environment configuration.'')), [])"
  using assms by (auto simp add: generateVerticalImage_def)

text \<open>The theorem at the environment with no key, whatever the SDK would have answered.\<close>

theorem generateVerticalImage_missing_key_witness:
  "requests_sent (snd (generateVerticalImage env_without_key (sdk_resolving two_images)
      (Some ''UkVE'') ''image/png'' [])) = []
   \<and> snd (generateVerticalImage env_without_key (sdk_resolving two_images)
      (Some ''UkVE'') ''image/png'' []) = []"
proof -
  have k: "API_KEY env_without_key = None \<or> API_KEY env_without_key = Some []"
    by (simp add: env_without_key_def)
  show ?thesis
    using generateVerticalImage_missing_key [OF k, of "sdk_resolving two_images"] by simp
qed

text \<open>
  C5: with a credential configured, when the \<open>try\<close> block raises an error (thrown by the
  request, or one of the two validation errors), the call is rejected with one error
  whose message is the underlying message when that is present and non-empty, and
  "Failed to generate image." otherwise. The request was sent once and nothing is
  returned.
\<close>

theorem generateVerticalImage_rethrows:
  assumes "API_KEY env = Some key" and "key \<noteq> []"
    and "try_block (GoogleGenAI key (request payload mt p)) = Inl underlying"
  shows "fst (generateVerticalImage env GoogleGenAI payload mt p)
         = Inl (Error (Some (case message underlying of
                               None \<Rightarrow> ''Failed to generate image.''
                             | Some m \<Rightarrow> if m = [] then ''Failed to generate image.'' else m)))
       \<and> requests_sent (snd (generateVerticalImage env GoogleGenAI payload mt p))
         = [request payload mt p]"
  using assms by (cases "message underlying") (simp_all add: generateVerticalImage_def Let_def)

text \<open>
  The theorem at an SDK that throws a value without a message, and at one that throws
  an error with a message.
\<close>

theorem generateVerticalImage_rethrows_witness:
  "fst (generateVerticalImage env_with_key (sdk_rejecting (Error None)) (Some ''UkVE'') ''image/png'' [])
   = Inl (Error (Some ''Failed to generate image.''))
   \<and> fst (generateVerticalImage env_with_key (sdk_rejecting (Error (Some ''quota exceeded'')))
        (Some ''UkVE'') ''image/png'' [])
   = Inl (Error (Some ''quota exceeded''))"
proof -
  have k: "API_KEY env_with_key = Some ''secret''" and ne: "''secret'' \<noteq> []"
    by (simp_all add: env_with_key_def)
  have t0: "try_block (sdk_rejecting (Error None) ''secret'' (request (Some ''UkVE'') ''image/png'' []))
            = Inl (Error None)"
    and t1: "try_block (sdk_rejecting (Error (Some ''quota exceeded'')) ''secret''
               (request (Some ''UkVE'') ''image/png'' []))
            = Inl (Error (Some ''quota exceeded''))"
    by (simp_all add: sdk_rejecting_def try_block_thrown)
  show ?thesis
    using generateVerticalImage_rethrows [where GoogleGenAI = "sdk_rejecting (Error None)", OF k ne t0]
      generateVerticalImage_rethrows
        [where GoogleGenAI = "sdk_rejecting (Error (Some ''quota exceeded''))", OF k ne t1]
    by simp
qed

section \<open>Properties of \<open>match\<close> and \<open>split\<close>\<close>

lemma match_group_shape:
  "match_group s = Some m \<Longrightarrow> \<exists>rest. s = m @ '';base64,'' @ rest"
proof (induction s arbitrary: m)
  case Nil
  then show ?case by simp
next
  case (Cons c cs)
  show ?case
  proof (cases "if LineTerminator c then None else match_group cs")
    case None
    with Cons.prems have m: "m = []" and t: "take 8 (c # cs) = '';base64,''"
      by (auto split: if_splits)
    have "c # cs = take 8 (c # cs) @ drop 8 (c # cs)"
      by (simp only: append_take_drop_id)
    with t m show ?thesis by (metis append_Nil)
  next
    case (Some m')
    then have mg: "match_group cs = Some m'"
      by (auto split: if_splits)
    from Some Cons.prems have "m = c # m'" by simp
    with Cons.IH [OF mg] show ?thesis by auto
  qed
qed

lemma match_dataUrl_shape:
  assumes "match_dataUrl s = Some m"
  shows "\<exists>rest. s = ''data:'' @ m @ '';base64,'' @ rest"
proof -
  from assms have t: "take 5 s = ''data:''" and g: "match_group (drop 5 s) = Some m"
    by (auto simp: match_dataUrl_def split: if_splits)
  from match_group_shape [OF g] obtain rest where "drop 5 s = m @ '';base64,'' @ rest" ..
  moreover have "s = take 5 s @ drop 5 s" by simp
  ultimately show ?thesis using t by metis
qed

lemma match_dataUrl_comma: "match_dataUrl s = Some m \<Longrightarrow> CHR '','' \<in> set s"
  by (drule match_dataUrl_shape) auto

lemma split_nonempty: "split sep s \<noteq> []"
  by (induction s) (auto split: list.splits)

lemma split_pieces_free: "piece \<in> set (split sep s) \<Longrightarrow> sep \<notin> set piece"
  by (induction s arbitrary: piece) (auto split: if_splits list.splits)

lemma split_second:
  "sep \<in> set s \<Longrightarrow> \<exists>piece. index (split sep s) 1 = Some piece \<and> piece \<in> set (split sep s)"
proof (induction s)
  case Nil
  then show ?case by simp
next
  case (Cons c cs)
  obtain x xs where xs: "split sep cs = x # xs"
    using split_nonempty by (cases "split sep cs") auto
  show ?case
  proof (cases "c = sep")
    case True
    with xs show ?thesis by simp
  next
    case False
    with Cons.prems have "sep \<in> set cs" by simp
    from Cons.IH [OF this] obtain piece
      where "index (split sep cs) 1 = Some piece" "piece \<in> set (split sep cs)" by blast
    with xs False show ?thesis by (cases xs) auto
  qed
qed

lemma split_once:
  "sep \<notin> set a \<Longrightarrow> sep \<notin> set b \<Longrightarrow> split sep (a @ sep # b) = [a, b]"
proof (induction a)
  case Nil
  have "split sep b = [b]" using Nil(2) by (induction b) auto
  then show ?case by simp
next
  case (Cons c cs)
  then show ?case by auto
qed

text \<open>
  For a data URL with no comma in its MIME type and none in its payload, the stored raw
  base64 is the payload.
\<close>

lemma handleImageSelected_payload:
  assumes "CHR '','' \<notin> set mime" and "CHR '','' \<notin> set payload"
  shows "map_option base64 (sourceImage (handleImageSelected f (''data:'' @ mime @ '';base64,'' @ payload) s))
         = Some (Some payload)"
proof -
  have "''data:'' @ mime @ '';base64,'' @ payload = (''data:'' @ mime @ '';base64'') @ CHR '','' # payload"
    by simp
  moreover have "CHR '','' \<notin> set (''data:'' @ mime @ '';base64'')"
    using assms(1) by simp
  ultimately have "split CHR '','' (''data:'' @ mime @ '';base64,'' @ payload)
                   = [''data:'' @ mime @ '';base64'', payload]"
    using assms(2) split_once by metis
  then show ?thesis
    by (simp add: handleImageSelected_def Let_def)
qed

section \<open>Properties of the handlers\<close>

text \<open>
  The last stretch of \<open>handleGenerate\<close> after a rejection, from any state it resumes in.
\<close>

lemma handleGenerate_settled_rejected:
  "generatedImage (handleGenerate_settled (Inl err) s) = generatedImage s
   \<and> sourceImage (handleGenerate_settled (Inl err) s) = sourceImage s
   \<and> isLoading (processing (handleGenerate_settled (Inl err) s)) = False
   \<and> error (processing (handleGenerate_settled (Inl err) s))
     = Some (js_or (message err) ''Something went wrong'')"
  by (simp add: handleGenerate_settled_def)

text \<open>
  C6: in a run of \<open>handleGenerate\<close> in which the client rejects, the final state has the
  error message in \<open>processing.error\<close> (the client's message when present and non-empty,
  "Something went wrong" otherwise), \<open>isLoading\<close> false and the progress label empty, and
  the generated result and the source image are those the run started with.
\<close>

theorem handleGenerate_rejected:
  assumes "sourceImage s = Some img"
    and "fst (generateVerticalImage env GoogleGenAI (base64 img) (mimeType img) (prompt s)) = Inl err"
  shows "processing (fst (handleGenerate env GoogleGenAI s))
           = \<lparr> isLoading = False,
               error = Some (case message err of
                               None \<Rightarrow> ''Something went wrong''
                             | Some m \<Rightarrow> if m = [] then ''Something went wrong'' else m),
               progress = [] \<rparr>
       \<and> generatedImage (fst (handleGenerate env GoogleGenAI s)) = generatedImage s
       \<and> sourceImage (fst (handleGenerate env GoogleGenAI s)) = sourceImage s"
  using assms
  by (cases "message err")
     (auto simp add: handleGenerate_def Let_def handleGenerate_settled_def handleGenerate_begin_def
       handleGenerate_afterDelay_def split: prod.splits)

text \<open>
  The theorem at a regeneration after a success, with an SDK that throws "quota exceeded":
  the error is stored and the earlier image stays.
\<close>

theorem handleGenerate_rejected_witness:
  "processing (fst (handleGenerate env_with_key (sdk_rejecting (Error (Some ''quota exceeded''))) after_success))
     = \<lparr> isLoading = False, error = Some ''quota exceeded'', progress = [] \<rparr>
   \<and> generatedImage (fst (handleGenerate env_with_key (sdk_rejecting (Error (Some ''quota exceeded''))) after_success))
     = Some ''data:image/png;base64,QkxVRQ==''"
proof -
  let ?img = "\<lparr> file' = picture, previewUrl = red_pixels, base64 = Some ''UkVE'', mimeType = ''image/png'' \<rparr>"
  have src: "sourceImage after_success = Some ?img"
    by (simp add: after_success_def handleImageSelected_def red_pixels_def match_dataUrl_def
        LineTerminator_def)
  have rej: "fst (generateVerticalImage env_with_key (sdk_rejecting (Error (Some ''quota exceeded'')))
               (base64 ?img) (mimeType ?img) (prompt after_success))
             = Inl (Error (Some ''quota exceeded''))"
    by (simp add: generateVerticalImage_def env_with_key_def sdk_rejecting_def try_block_def)
  have old: "generatedImage after_success = Some ''data:image/png;base64,QkxVRQ==''"
    by (simp add: after_success_def)
  show ?thesis
    using old handleGenerate_rejected [OF src rej] by simp
qed

text \<open>
  C7: whatever the state, \<open>handleClear\<close> leaves no source image, no generated result, and
  the processing state \<open>{ isLoading: false, error: null, progress: '' }\<close>.
\<close>

theorem handleClear_resets:
  "sourceImage (handleClear s) = None
   \<and> generatedImage (handleClear s) = None
   \<and> processing (handleClear s) = \<lparr> isLoading = False, error = None, progress = [] \<rparr>"
  by (simp add: handleClear_def)

text \<open>The theorem at the state after a success.\<close>

theorem handleClear_resets_witness:
  "sourceImage (handleClear after_success) = None
   \<and> generatedImage (handleClear after_success) = None
   \<and> processing (handleClear after_success) = processing initialState"
  using handleClear_resets [of after_success] by (simp add: initialState_def)

text \<open>
  C9: for an upload whose preview string is a data URL (it matches the pattern of
  \<open>handleImageSelected\<close>), the stored record keeps the preview string, which has the
  \<open>data:...;base64,\<close> prefix; its raw base64 is defined and holds no comma, so the prefix
  pattern matches at no position of it; and the record is built from the file and the
  preview string alone, whatever the state held before.
\<close>

theorem handleImageSelected_invariant:
  assumes "match_dataUrl dataUrl = Some mime"
  shows "\<exists>img raw.
           sourceImage (handleImageSelected f dataUrl s) = Some img
         \<and> previewUrl img = dataUrl
         \<and> match_dataUrl (previewUrl img) \<noteq> None
         \<and> base64 img = Some raw
         \<and> CHR '','' \<notin> set raw
         \<and> (\<forall>before after. raw = before @ after \<longrightarrow> match_dataUrl after = None)
         \<and> sourceImage (handleImageSelected f dataUrl s') = Some img"
proof -
  have "CHR '','' \<in> set dataUrl"
    using assms by (rule match_dataUrl_comma)
  from split_second [OF this] obtain raw
    where raw: "index (split CHR '','' dataUrl) 1 = Some raw" "raw \<in> set (split CHR '','' dataUrl)"
    by blast
  have free: "CHR '','' \<notin> set raw"
    using raw(2) by (rule split_pieces_free)
  have no: "match_dataUrl after = None" if "raw = before @ after" for before after
  proof (cases "match_dataUrl after")
    case None
    then show ?thesis .
  next
    case (Some m)
    then have "CHR '','' \<in> set after" by (rule match_dataUrl_comma)
    with that free show ?thesis by simp
  qed
  show ?thesis
    using assms raw(1) free no by (simp add: handleImageSelected_def Let_def)
qed

text \<open>
  The theorem at the upload of \<open>red_pixels\<close>, once into the initial state and once over a
  state that holds an earlier upload and result: the same record is stored, and its raw
  base64 does not match the prefix pattern.
\<close>

theorem handleImageSelected_invariant_witness:
  "match_dataUrl red_pixels = Some ''image/png''
   \<and> map_option previewUrl (sourceImage (handleImageSelected picture red_pixels initialState))
     = Some red_pixels
   \<and> sourceImage (handleImageSelected picture red_pixels initialState)
     = sourceImage (handleImageSelected picture red_pixels after_success)"
proof -
  have m: "match_dataUrl red_pixels = Some ''image/png''"
    by (simp add: match_dataUrl_def red_pixels_def LineTerminator_def)
  show ?thesis
    using m handleImageSelected_invariant [OF m, of picture initialState after_success]
    by auto
qed

text \<open>
  C10: every call of \<open>handleImageSelected\<close> sets the generated result to \<open>null\<close> and the
  processing state to \<open>{ isLoading: false, error: null, progress: '' }\<close>; and when the
  preview string does not match the data-URL prefix pattern, the stored MIME type is the
  file's own type.
\<close>

theorem handleImageSelected_resets:
  "generatedImage (handleImageSelected f dataUrl s) = None
   \<and> processing (handleImageSelected f dataUrl s) = \<lparr> isLoading = False, error = None, progress = [] \<rparr>
   \<and> (match_dataUrl dataUrl = None \<longrightarrow>
        (\<exists>img. sourceImage (handleImageSelected f dataUrl s) = Some img \<and> mimeType img = type f))"
  by (simp add: handleImageSelected_def Let_def)

text \<open>
  The theorem at a preview string that is not a data URL, over a state that holds a
  result: the result is dropped and the MIME type is that of the file.
\<close>

theorem handleImageSelected_resets_witness:
  "match_dataUrl ''blob:1234'' = None
   \<and> generatedImage (handleImageSelected picture ''blob:1234'' after_success) = None
   \<and> map_option mimeType (sourceImage (handleImageSelected picture ''blob:1234'' after_success))
     = Some ''image/png''"
proof -
  have m: "match_dataUrl ''blob:1234'' = None"
    by (simp add: match_dataUrl_def)
  show ?thesis
    using m handleImageSelected_resets [of picture "''blob:1234''" after_success]
    by (auto simp add: picture_def)
qed

section \<open>The guard on the generate trigger\<close>

text \<open>
  While \<open>processing.isLoading\<close> is set, or without a source image, the generate button
  does nothing; while it is set the regenerate button does nothing either.
\<close>

lemma generate_disabled:
  "sourceImage (ui a) = None \<or> isLoading (processing (ui a)) \<Longrightarrow> step ClickGenerate a = a"
  by auto

lemma regenerate_disabled:
  "isLoading (processing (ui a)) \<Longrightarrow> step ClickRegenerate a = a"
  by simp

text \<open>
  C8: the generate trigger is disabled whenever no source image is present or a generation
  is in flight, so that at most one generation request is outstanding at any time. The
  code does not keep this. The button "Change Image" calls \<open>handleClear\<close> and is not
  disabled while loading (the trash button, which calls the same handler, is). After an
  upload, a click on generate and the call of the client, a click on "Change Image" and a
  new upload leave the first call in flight with the loading flag cleared and a source
  image present, so the generate button is enabled; a second click then puts a second
  call in flight beside the first.
\<close>

theorem second_request_while_first_in_flight:
  "length (inFlight (run change_image_while_loading initialSession)) = 1
   \<and> sourceImage (ui (run change_image_while_loading initialSession)) \<noteq> None
   \<and> isLoading (processing (ui (run change_image_while_loading initialSession))) = False
   \<and> length (inFlight (run (change_image_while_loading @ [ClickGenerate, DelayElapsed]) initialSession)) = 2"
  by (simp add: change_image_while_loading_def initialSession_def initialState_def picture_def
      red_pixels_def handleImageSelected_def handleClear_def callHandleGenerate_def
      handleGenerate_begin_def handleGenerate_afterDelay_def)

end
